theory Spec2Isabelle
  imports Complex_Main "HOL-Library.Product_Order"
begin

section \<open>Numeric values\<close>

text \<open>
  The arrays of \<^verbatim>\<open>oddt/interactions.py\<close> hold double-precision numbers. Measured
  angles and distances are either a number or the not-a-number sentinel; rounding is not
  modelled, a finite value is a real number. Cutoffs and tolerances are the finite
  numbers the callers pass.
\<close>

datatype fl = NaN | Fin real

text \<open>\<^verbatim>\<open>np.nan_to_num\<close>: not-a-number becomes zero, every number stays.\<close>

fun nan_to_num :: "fl \<Rightarrow> fl" where
  "nan_to_num NaN = Fin 0"
| "nan_to_num (Fin r) = Fin r"

text \<open>Comparisons of an array entry with a bound: every comparison with not-a-number is false.\<close>

fun fl_gt :: "fl \<Rightarrow> real \<Rightarrow> bool" where
  "fl_gt NaN b = False"
| "fl_gt (Fin r) b = (r > b)"

fun fl_lt :: "fl \<Rightarrow> real \<Rightarrow> bool" where
  "fl_lt NaN b = False"
| "fl_lt (Fin r) b = (r < b)"

fun fl_le :: "fl \<Rightarrow> real \<Rightarrow> bool" where
  "fl_le NaN b = False"
| "fl_le (Fin r) b = (r \<le> b)"

datatype error = IndexError | ValueError

section \<open>Data model\<close>

text \<open>
  One row of \<^verbatim>\<open>atom_dict\<close> and of \<^verbatim>\<open>ring_dict\<close>, with the columns the module reads.
  The type \<open>'p\<close> is the type of a point (a row of three coordinates); the module adds
  and subtracts points.
\<close>

record 'p atom =
  coords :: 'p
  neighbors :: "'p list"
  hybridization :: int
  isacceptor :: bool
  isdonor :: bool
  ishalogen :: bool
  isplus :: bool
  isminus :: bool
  ishydrophobe :: bool
  ismetal :: bool

record 'p ring =
  centroid :: 'p
  vector :: 'p

record 'p molecule =
  atom_dict :: "'p atom list"
  ring_dict :: "'p ring list"

definition BASE_ANGLES :: "real list" where
  "BASE_ANGLES = [0, 180, 120, 109.5, 90]"

section \<open>Close contacts\<close>

text \<open>
  Modelled from the spec: \<^verbatim>\<open>oddt.spatial.distance\<close> is imported, not defined, by the
  module. It is the all-pairs distance matrix of two point collections, one row per point
  of the first collection; the metric between two points is the parameter \<open>metric\<close>.
\<close>

definition distance :: "('p \<Rightarrow> 'p \<Rightarrow> fl) \<Rightarrow> 'p list \<Rightarrow> 'p list \<Rightarrow> fl list list" where
  "distance metric X Y = map (\<lambda>p. map (metric p) Y) X"

text \<open>\<^verbatim>\<open>np.argwhere\<close> on a matrix of booleans: the positions of the true entries, row by row.\<close>

definition argwhere :: "bool list list \<Rightarrow> (nat \<times> nat) list" where
  "argwhere m =
     concat (map (\<lambda>i. map (\<lambda>j. (i, j)) (filter (\<lambda>j. m ! i ! j) [0..<length (m ! i)]))
                 [0..<length m])"

text \<open>The local \<^verbatim>\<open>index\<close> of \<^verbatim>\<open>close_contacts\<close>, on the two coordinate columns.\<close>

definition contact_index ::
  "('p \<Rightarrow> 'p \<Rightarrow> fl) \<Rightarrow> 'p list \<Rightarrow> 'p list \<Rightarrow> real \<Rightarrow> real \<Rightarrow> (nat \<times> nat) list" where
  "contact_index metric xs ys cutoff cutoff_low =
     (let d = distance metric xs ys
      in argwhere (map (map (\<lambda>v. fl_gt v cutoff_low \<and> fl_le v cutoff)) d))"

text \<open>
  \<^verbatim>\<open>close_contacts(x, y, cutoff, x_column, y_column, cutoff_low)\<close>. The guard tests the
  length of the first collection twice, as the source does.
\<close>

definition close_contacts ::
  "('p \<Rightarrow> 'p \<Rightarrow> fl) \<Rightarrow> 'a list \<Rightarrow> 'b list \<Rightarrow> real \<Rightarrow> ('a \<Rightarrow> 'p) \<Rightarrow> ('b \<Rightarrow> 'p) \<Rightarrow> real
     \<Rightarrow> 'a list \<times> 'b list" where
  "close_contacts metric x y cutoff x_column y_column cutoff_low =
     (if length (map x_column x) > 0 \<and> length (map x_column x) > 0 then
        let index = contact_index metric (map x_column x) (map y_column y) cutoff cutoff_low
        in (map (\<lambda>k. x ! fst k) index, map (\<lambda>k. y ! snd k) index)
      else ([], []))"

section \<open>The strictness classifier\<close>

text \<open>
  \<^verbatim>\<open>np.take(BASE_ANGLES, hybridizations)\<close> in its default mode: an index from the end
  when negative, \<^verbatim>\<open>IndexError\<close> outside the table.
\<close>

definition take1 :: "real list \<Rightarrow> int \<Rightarrow> error + real" where
  "take1 arr i =
     (let n = int (length arr); j = (if i < 0 then n + i else i)
      in if 0 \<le> j \<and> j < n then Inr (arr ! nat j) else Inl IndexError)"

fun np_take :: "real list \<Rightarrow> int list \<Rightarrow> error + real list" where
  "np_take arr [] = Inr []"
| "np_take arr (i # is) =
     (case take1 arr i of
        Inl e \<Rightarrow> Inl e
      | Inr v \<Rightarrow> (case np_take arr is of Inl e \<Rightarrow> Inl e | Inr vs \<Rightarrow> Inr (v # vs)))"

text \<open>
  One row of the comparison
  \<^verbatim>\<open>((angles > lower_bound) & (angles < upper_bound)).any(axis=-1)\<close>.
\<close>

definition band_any :: "fl list \<Rightarrow> real \<Rightarrow> real \<Rightarrow> bool" where
  "band_any row ideal tolerance =
     (let lower_bound = ideal - tolerance; upper_bound = ideal + tolerance
      in list_ex (\<lambda>a. fl_gt a lower_bound \<and> fl_lt a upper_bound) row)"

text \<open>
  \<^verbatim>\<open>_check_angles(angles, hybridizations, tolerance)\<close>: \<open>angles\<close> has one row per pair
  and one column per neighbour slot, \<open>hybridizations\<close> one code per pair. The column of
  ideal angles is broadcast against the rows: equal counts pair up, a single ideal angle or
  a single row is repeated, anything else is a shape error.
\<close>

definition check_angles :: "fl list list \<Rightarrow> int list \<Rightarrow> real \<Rightarrow> error + bool list" where
  "check_angles angles hybridizations tolerance =
     (let angles = map (map nan_to_num) angles
      in case np_take BASE_ANGLES hybridizations of
           Inl e \<Rightarrow> Inl e
         | Inr ideal_angles \<Rightarrow>
             if length angles = length ideal_angles then
               Inr (map2 (\<lambda>row ideal. band_any row ideal tolerance) angles ideal_angles)
             else if length ideal_angles = 1 then
               Inr (map (\<lambda>row. band_any row (hd ideal_angles) tolerance) angles)
             else if length angles = 1 then
               Inr (map (\<lambda>ideal. band_any (hd angles) ideal tolerance) ideal_angles)
             else Inl ValueError)"

section \<open>Detectors\<close>

text \<open>
  \<^verbatim>\<open>oddt.spatial.angle\<close> and \<^verbatim>\<open>oddt.spatial.angle_2v\<close> are imported, not defined,
  by the module: the detectors take them as the parameters \<open>angle\<close> (the angle at the
  second point between the rays to the first and to the third, in degrees) and
  \<open>angle_2v\<close> (the angle between two vectors, in degrees), either of which may be
  not-a-number. In \<^verbatim>\<open>angle(d['coords'][:, np.newaxis, :], a['coords'][:, np.newaxis, :],
  a['neighbors'])\<close> the row of pair \<open>i\<close> holds one angle per neighbour slot of \<open>a[i]\<close>.
\<close>

definition hbond_acceptor_donor ::
  "('p \<Rightarrow> 'p \<Rightarrow> fl) \<Rightarrow> ('p \<Rightarrow> 'p \<Rightarrow> 'p \<Rightarrow> fl) \<Rightarrow> 'p molecule \<Rightarrow> 'p molecule \<Rightarrow> real \<Rightarrow> real
     \<Rightarrow> error + ('p atom list \<times> 'p atom list \<times> bool list)" where
  "hbond_acceptor_donor metric angle mol1 mol2 cutoff tolerance =
     (let (a, d) = close_contacts metric (filter isacceptor (atom_dict mol1))
                     (filter isdonor (atom_dict mol2)) cutoff coords coords 0
      in if length a > 0 \<and> length d > 0 then
           let angle1 = map2 (\<lambda>di ai. map (angle (coords di) (coords ai)) (neighbors ai)) d a;
               angle2 = map2 (\<lambda>ai di. map (angle (coords ai) (coords di)) (neighbors di)) a d
           in (case check_angles angle1 (map hybridization a) tolerance of
                 Inl e \<Rightarrow> Inl e
               | Inr s1 \<Rightarrow>
                   (case check_angles angle2 (map hybridization d) tolerance of
                      Inl e \<Rightarrow> Inl e
                    | Inr s2 \<Rightarrow> Inr (a, d, map2 (\<and>) s1 s2)))
         else Inr (a, d, []))"

definition hbonds ::
  "('p \<Rightarrow> 'p \<Rightarrow> fl) \<Rightarrow> ('p \<Rightarrow> 'p \<Rightarrow> 'p \<Rightarrow> fl) \<Rightarrow> 'p molecule \<Rightarrow> 'p molecule \<Rightarrow> real \<Rightarrow> real
     \<Rightarrow> error + ('p atom list \<times> 'p atom list \<times> bool list)" where
  "hbonds metric angle mol1 mol2 cutoff tolerance =
     (case hbond_acceptor_donor metric angle mol1 mol2 cutoff tolerance of
        Inl e \<Rightarrow> Inl e
      | Inr (a1, d1, s1) \<Rightarrow>
          (case hbond_acceptor_donor metric angle mol2 mol1 cutoff tolerance of
             Inl e \<Rightarrow> Inl e
           | Inr (a2, d2, s2) \<Rightarrow> Inr (a1 @ d2, d1 @ a2, s1 @ s2)))"

definition halogenbond_acceptor_halogen ::
  "('p \<Rightarrow> 'p \<Rightarrow> fl) \<Rightarrow> ('p \<Rightarrow> 'p \<Rightarrow> 'p \<Rightarrow> fl) \<Rightarrow> 'p molecule \<Rightarrow> 'p molecule \<Rightarrow> real \<Rightarrow> real
     \<Rightarrow> error + ('p atom list \<times> 'p atom list \<times> bool list)" where
  "halogenbond_acceptor_halogen metric angle mol1 mol2 tolerance cutoff =
     (let (a, h) = close_contacts metric (filter isacceptor (atom_dict mol1))
                     (filter ishalogen (atom_dict mol2)) cutoff coords coords 0
      in if length a > 0 \<and> length h > 0 then
           let angle1 = map2 (\<lambda>hi ai. map (angle (coords hi) (coords ai)) (neighbors ai)) h a;
               angle2 = map2 (\<lambda>ai hi. map (angle (coords ai) (coords hi)) (neighbors hi)) a h
           in (case check_angles angle1 (map hybridization a) tolerance of
                 Inl e \<Rightarrow> Inl e
               | Inr s1 \<Rightarrow>
                   (case check_angles angle2 (map hybridization h) tolerance of
                      Inl e \<Rightarrow> Inl e
                    | Inr s2 \<Rightarrow> Inr (a, h, map2 (\<and>) s1 s2)))
         else Inr (a, h, []))"

definition halogenbonds ::
  "('p \<Rightarrow> 'p \<Rightarrow> fl) \<Rightarrow> ('p \<Rightarrow> 'p \<Rightarrow> 'p \<Rightarrow> fl) \<Rightarrow> 'p molecule \<Rightarrow> 'p molecule \<Rightarrow> real \<Rightarrow> real
     \<Rightarrow> error + ('p atom list \<times> 'p atom list \<times> bool list)" where
  "halogenbonds metric angle mol1 mol2 cutoff tolerance =
     (case halogenbond_acceptor_halogen metric angle mol1 mol2 tolerance cutoff of
        Inl e \<Rightarrow> Inl e
      | Inr (a1, h1, s1) \<Rightarrow>
          (case halogenbond_acceptor_halogen metric angle mol2 mol1 tolerance cutoff of
             Inl e \<Rightarrow> Inl e
           | Inr (a2, h2, s2) \<Rightarrow> Inr (a1 @ h2, h1 @ a2, s1 @ s2)))"

definition pi_stacking ::
  "('p \<Rightarrow> 'p \<Rightarrow> fl) \<Rightarrow> ('p \<Rightarrow> 'p \<Rightarrow> 'p \<Rightarrow> fl) \<Rightarrow> ('p \<Rightarrow> 'p \<Rightarrow> fl)
     \<Rightarrow> ('p::plus) molecule \<Rightarrow> 'p molecule \<Rightarrow> real \<Rightarrow> real
     \<Rightarrow> 'p ring list \<times> 'p ring list \<times> bool list \<times> bool list" where
  "pi_stacking metric angle angle_2v mol1 mol2 cutoff tolerance =
     (let (r1, r2) = close_contacts metric (ring_dict mol1) (ring_dict mol2) cutoff
                       centroid centroid 0
      in if length r1 > 0 \<and> length r2 > 0 then
           let angle1 = map2 (\<lambda>p q. angle_2v (vector p) (vector q)) r1 r2;
               angle2 = map2 (\<lambda>p q. angle (vector p + centroid p) (centroid p) (centroid q))
                          r1 r2;
               strict_parallel =
                 map2 (\<lambda>a1 a2. (fl_gt a1 (180 - tolerance) \<or> fl_lt a1 tolerance) \<and>
                                (fl_gt a2 (180 - tolerance) \<or> fl_lt a2 tolerance))
                   angle1 angle2;
               strict_perpendicular =
                 map2 (\<lambda>a1 a2. (fl_gt a1 (90 - tolerance) \<and> fl_lt a1 (90 + tolerance)) \<and>
                                (fl_gt a2 (180 - tolerance) \<or> fl_lt a2 tolerance))
                   angle1 angle2
           in (r1, r2, strict_parallel, strict_perpendicular)
         else (r1, r2, [], []))"

definition salt_bridge_plus_minus ::
  "('p \<Rightarrow> 'p \<Rightarrow> fl) \<Rightarrow> 'p molecule \<Rightarrow> 'p molecule \<Rightarrow> real \<Rightarrow> 'p atom list \<times> 'p atom list" where
  "salt_bridge_plus_minus metric mol1 mol2 cutoff =
     (let (m1_plus, m2_minus) =
            close_contacts metric (filter isplus (atom_dict mol1))
              (filter isminus (atom_dict mol2)) cutoff coords coords 0
      in (m1_plus, m2_minus))"

definition salt_bridges ::
  "('p \<Rightarrow> 'p \<Rightarrow> fl) \<Rightarrow> 'p molecule \<Rightarrow> 'p molecule \<Rightarrow> real \<Rightarrow> 'p atom list \<times> 'p atom list" where
  "salt_bridges metric mol1 mol2 cutoff =
     (let (m1_plus, m2_minus) = salt_bridge_plus_minus metric mol1 mol2 cutoff;
          (m2_plus, m1_minus) = salt_bridge_plus_minus metric mol2 mol1 cutoff
      in (m1_plus @ m1_minus, m2_minus @ m2_plus))"

definition hydrophobic_contacts ::
  "('p \<Rightarrow> 'p \<Rightarrow> fl) \<Rightarrow> 'p molecule \<Rightarrow> 'p molecule \<Rightarrow> real \<Rightarrow> 'p atom list \<times> 'p atom list" where
  "hydrophobic_contacts metric mol1 mol2 cutoff =
     (let (h1, h2) =
            close_contacts metric (filter ishydrophobe (atom_dict mol1))
              (filter ishydrophobe (atom_dict mol2)) cutoff coords coords 0
      in (h1, h2))"

definition pi_cation ::
  "('p \<Rightarrow> 'p \<Rightarrow> fl) \<Rightarrow> ('p \<Rightarrow> 'p \<Rightarrow> fl) \<Rightarrow> ('p::minus) molecule \<Rightarrow> 'p molecule \<Rightarrow> real \<Rightarrow> real
     \<Rightarrow> 'p ring list \<times> 'p atom list \<times> bool list" where
  "pi_cation metric angle_2v mol1 mol2 cutoff tolerance =
     (let (r1, plus2) = close_contacts metric (ring_dict mol1)
                          (filter isplus (atom_dict mol2)) cutoff centroid coords 0
      in if length r1 > 0 \<and> length plus2 > 0 then
           let angle1 = map2 (\<lambda>r p. angle_2v (vector r) (coords p - centroid r)) r1 plus2;
               strict = map (\<lambda>a1. fl_gt a1 (180 - tolerance) \<or> fl_lt a1 tolerance) angle1
           in (r1, plus2, strict)
         else (r1, plus2, []))"

definition acceptor_metal ::
  "('p \<Rightarrow> 'p \<Rightarrow> fl) \<Rightarrow> ('p \<Rightarrow> 'p \<Rightarrow> 'p \<Rightarrow> fl) \<Rightarrow> 'p molecule \<Rightarrow> 'p molecule \<Rightarrow> real \<Rightarrow> real
     \<Rightarrow> error + ('p atom list \<times> 'p atom list \<times> bool list)" where
  "acceptor_metal metric angle mol1 mol2 tolerance cutoff =
     (let (a, m) = close_contacts metric (filter isacceptor (atom_dict mol1))
                     (filter ismetal (atom_dict mol2)) cutoff coords coords 0
      in if length a > 0 \<and> length m > 0 then
           let angle1 = map2 (\<lambda>mi ai. map (angle (coords mi) (coords ai)) (neighbors ai)) m a
           in (case check_angles angle1 (map hybridization a) tolerance of
                 Inl e \<Rightarrow> Inl e
               | Inr strict \<Rightarrow> Inr (a, m, strict))
         else Inr (a, m, []))"

definition pi_metal ::
  "('p \<Rightarrow> 'p \<Rightarrow> fl) \<Rightarrow> ('p \<Rightarrow> 'p \<Rightarrow> fl) \<Rightarrow> ('p::minus) molecule \<Rightarrow> 'p molecule \<Rightarrow> real \<Rightarrow> real
     \<Rightarrow> 'p ring list \<times> 'p atom list \<times> bool list" where
  "pi_metal metric angle_2v mol1 mol2 cutoff tolerance =
     (let (r1, m) = close_contacts metric (ring_dict mol1)
                      (filter ismetal (atom_dict mol2)) cutoff centroid coords 0
      in if length r1 > 0 \<and> length m > 0 then
           let angle1 = map2 (\<lambda>r p. angle_2v (vector r) (coords p - centroid r)) r1 m;
               strict = map (\<lambda>a1. fl_gt a1 (180 - tolerance) \<or> fl_lt a1 tolerance) angle1
           in (r1, m, strict)
         else (r1, m, []))"

section \<open>Example structures\<close>

text \<open>
  Concrete inputs for the scenarios below: points are triples of reals, all atoms and ring
  centroids lie on the first axis, and \<open>axis_metric\<close> is the distance between two such
  points. Measured angles are supplied through the parameters of the detectors.
\<close>

type_synonym point = "real \<times> real \<times> real"

definition axis_metric :: "point \<Rightarrow> point \<Rightarrow> fl" where
  "axis_metric p q = Fin \<bar>fst p - fst q\<bar>"

definition plain_atom :: "point \<Rightarrow> point list \<Rightarrow> int \<Rightarrow> point atom" where
  "plain_atom c ns h =
     \<lparr>coords = c, neighbors = ns, hybridization = h, isacceptor = False, isdonor = False,
      ishalogen = False, isplus = False, isminus = False, ishydrophobe = False,
      ismetal = False\<rparr>"

definition acceptor_at_0 :: "point atom" where
  "acceptor_at_0 = (plain_atom (0, 0, 0) [(-1, 0, 0)] 1)\<lparr>isacceptor := True\<rparr>"

definition donor_at_3 :: "point atom" where
  "donor_at_3 = (plain_atom (3, 0, 0) [(4, 0, 0)] 1)\<lparr>isdonor := True\<rparr>"

definition mol_acceptor :: "point molecule" where
  "mol_acceptor = \<lparr>atom_dict = [acceptor_at_0], ring_dict = []\<rparr>"

definition mol_donor :: "point molecule" where
  "mol_donor = \<lparr>atom_dict = [donor_at_3], ring_dict = []\<rparr>"

definition mol_empty :: "point molecule" where
  "mol_empty = \<lparr>atom_dict = [], ring_dict = []\<rparr>"

definition acceptor_degenerate :: "point atom" where
  "acceptor_degenerate = (plain_atom (0, 0, 0) [(0, 0, 0)] 0)\<lparr>isacceptor := True\<rparr>"

definition acceptor_code_7 :: "point atom" where
  "acceptor_code_7 = (plain_atom (0, 0, 0) [(-1, 0, 0)] 7)\<lparr>isacceptor := True\<rparr>"

definition halogen_at_3 :: "point atom" where
  "halogen_at_3 = (plain_atom (3, 0, 0) [(4, 0, 0)] 1)\<lparr>ishalogen := True\<rparr>"

definition metal_at_2 :: "point atom" where
  "metal_at_2 = (plain_atom (2, 0, 0) [] 0)\<lparr>ismetal := True\<rparr>"

definition cation_at_0 :: "point atom" where
  "cation_at_0 = (plain_atom (0, 0, 0) [] 3)\<lparr>isplus := True\<rparr>"

definition anion_at_3 :: "point atom" where
  "anion_at_3 = (plain_atom (3, 0, 0) [] 3)\<lparr>isminus := True\<rparr>"

definition ring_at_0 :: "point ring" where
  "ring_at_0 = \<lparr>centroid = (0, 0, 0), vector = (1, 0, 0)\<rparr>"

definition ring_at_4 :: "point ring" where
  "ring_at_4 = \<lparr>centroid = (4, 0, 0), vector = (1, 0, 0)\<rparr>"

definition mol_site :: "point molecule" where
  "mol_site = \<lparr>atom_dict = [acceptor_at_0, cation_at_0], ring_dict = [ring_at_0]\<rparr>"

definition mol_ligand :: "point molecule" where
  "mol_ligand = \<lparr>atom_dict = [donor_at_3, halogen_at_3, anion_at_3], ring_dict = [ring_at_4]\<rparr>"

definition mol_code_7 :: "point molecule" where
  "mol_code_7 = \<lparr>atom_dict = [acceptor_code_7], ring_dict = []\<rparr>"

definition mol_partners :: "point molecule" where
  "mol_partners = \<lparr>atom_dict = [donor_at_3, halogen_at_3, metal_at_2], ring_dict = []\<rparr>"

definition mol_degenerate :: "point molecule" where
  "mol_degenerate = \<lparr>atom_dict = [acceptor_degenerate], ring_dict = []\<rparr>"

section \<open>Properties of the proximity join\<close>

lemma argwhere_set: "set (argwhere m) = {(i, j). i < length m \<and> j < length (m ! i) \<and> m ! i ! j}"
  unfolding argwhere_def by auto

lemma distinct_rows:
  "(\<And>i. distinct (g i)) \<Longrightarrow> distinct (concat (map (\<lambda>i. map (Pair i) (g i)) [0..<n]))"
  by (induction n) (auto simp: distinct_map inj_on_def)

lemma argwhere_distinct: "distinct (argwhere m)"
  unfolding argwhere_def by (rule distinct_rows) simp

lemma fl_window: "(fl_gt v lo \<and> fl_le v hi) = (\<exists>r. v = Fin r \<and> lo < r \<and> r \<le> hi)"
  by (cases v) auto

lemma contact_index_set:
  "set (contact_index metric xs ys cutoff lo) =
     {(i, j). i < length xs \<and> j < length ys \<and>
        (\<exists>r. metric (xs ! i) (ys ! j) = Fin r \<and> lo < r \<and> r \<le> cutoff)}"
  unfolding contact_index_def distance_def Let_def argwhere_set
  by (auto simp: fl_window)

lemma contact_index_bounds:
  "k \<in> set (contact_index metric xs ys cutoff lo) \<Longrightarrow> fst k < length xs \<and> snd k < length ys"
  using contact_index_set [of metric xs ys cutoff lo] by auto

lemma contact_index_Nil [simp]: "contact_index metric [] ys cutoff lo = []"
  by (simp add: contact_index_def distance_def argwhere_def)

lemma contact_index_Nil2 [simp]: "contact_index metric xs [] cutoff lo = []"
  using contact_index_set [of metric xs "[]" cutoff lo] by simp

lemma close_contacts_eq:
  "close_contacts metric x y cutoff xc yc lo =
     (map (\<lambda>k. x ! fst k) (contact_index metric (map xc x) (map yc y) cutoff lo),
      map (\<lambda>k. y ! snd k) (contact_index metric (map xc x) (map yc y) cutoff lo))"
  by (simp add: close_contacts_def Let_def)

lemma close_contacts_length:
  "close_contacts metric x y cutoff xc yc lo = (a, b) \<Longrightarrow> length a = length b"
  by (auto simp: close_contacts_eq)

lemma close_contacts_subset:
  assumes "close_contacts metric x y cutoff xc yc lo = (a, b)"
  shows "set a \<subseteq> set x" and "set b \<subseteq> set y"
  using assms contact_index_bounds [of _ metric "map xc x" "map yc y" cutoff lo]
  by (auto simp: close_contacts_eq)

lemma close_contacts_Nil1 [simp]: "close_contacts metric [] y cutoff xc yc lo = ([], [])"
  by (simp add: close_contacts_def)

lemma close_contacts_Nil2 [simp]: "close_contacts metric x [] cutoff xc yc lo = ([], [])"
  by (simp add: close_contacts_eq)

text \<open>
  Claim C2. \<^verbatim>\<open>close_contacts(X, Y, cutoff, cutoff_low)\<close> emits exactly the index pairs
  \<open>(i, j)\<close> whose distance is a number \<open>r\<close> with \<open>cutoff_low < r \<le> cutoff\<close>, each
  once, and returns the rows of \<open>X\<close> and of \<open>Y\<close> at these positions. So a pair at
  distance exactly \<open>cutoff_low\<close> is left out, one at exactly \<open>cutoff\<close> is kept, and no
  pair outside the window appears.
\<close>

theorem close_contacts_window:
  "set (contact_index metric (map xc x) (map yc y) cutoff lo) =
     {(i, j). i < length x \<and> j < length y \<and>
        (\<exists>r. metric (xc (x ! i)) (yc (y ! j)) = Fin r \<and> lo < r \<and> r \<le> cutoff)}
   \<and> distinct (contact_index metric (map xc x) (map yc y) cutoff lo)
   \<and> close_contacts metric x y cutoff xc yc lo =
       (map (\<lambda>k. x ! fst k) (contact_index metric (map xc x) (map yc y) cutoff lo),
        map (\<lambda>k. y ! snd k) (contact_index metric (map xc x) (map yc y) cutoff lo))"
proof (intro conjI)
  show "set (contact_index metric (map xc x) (map yc y) cutoff lo) =
     {(i, j). i < length x \<and> j < length y \<and>
        (\<exists>r. metric (xc (x ! i)) (yc (y ! j)) = Fin r \<and> lo < r \<and> r \<le> cutoff)}"
    unfolding contact_index_set by auto
  show "distinct (contact_index metric (map xc x) (map yc y) cutoff lo)"
    by (simp add: contact_index_def argwhere_distinct)
  show "close_contacts metric x y cutoff xc yc lo =
       (map (\<lambda>k. x ! fst k) (contact_index metric (map xc x) (map yc y) cutoff lo),
        map (\<lambda>k. y ! snd k) (contact_index metric (map xc x) (map yc y) cutoff lo))"
    by (rule close_contacts_eq)
qed

theorem close_contacts_window_witness:
  "(0, 1) \<in> set (contact_index (\<lambda>p q. Fin \<bar>p - q\<bar>) (map id [0, 1::real]) (map id [2, 3, 5::real]) 3 2)
   \<and> (0, 0) \<notin> set (contact_index (\<lambda>p q. Fin \<bar>p - q\<bar>) (map id [0, 1::real]) (map id [2, 3, 5::real]) 3 2)
   \<and> (1, 2) \<notin> set (contact_index (\<lambda>p q. Fin \<bar>p - q\<bar>) (map id [0, 1::real]) (map id [2, 3, 5::real]) 3 2)
   \<and> close_contacts (\<lambda>p q. Fin \<bar>p - q\<bar>) [0, 1::real] [2, 3, 5::real] 3 id id 2 = ([0], [3])"
proof -
  have "contact_index (\<lambda>p q. Fin \<bar>p - q\<bar>) (map id [0, 1::real]) (map id [2, 3, 5::real]) 3 2 = [(0, 1)]"
    by code_simp
  then show ?thesis
    using close_contacts_window [of "\<lambda>p q. Fin \<bar>p - q\<bar>" id "[0, 1::real]" id "[2, 3, 5::real]" 3 2]
    by simp
qed

section \<open>Properties of the strictness classifier\<close>

lemma mod5: "- 5 \<le> h \<Longrightarrow> h < 5 \<Longrightarrow> h mod 5 = (if h < 0 then 5 + h else (h::int))"
  by presburger

lemma take1_BASE: "take1 BASE_ANGLES h = (if - 5 \<le> h \<and> h < 5 then Inr (BASE_ANGLES ! nat (h mod 5)) else Inl IndexError)"
  by (auto simp: take1_def BASE_ANGLES_def Let_def mod5)

lemma np_take_Inr:
  "\<forall>h \<in> set hs. - 5 \<le> h \<and> h < 5 \<Longrightarrow>
     np_take BASE_ANGLES hs = Inr (map (\<lambda>h. BASE_ANGLES ! nat (h mod 5)) hs)"
  by (induction hs) (simp_all add: take1_BASE)

lemma np_take_Inl:
  "h \<in> set hs \<Longrightarrow> h < - 5 \<or> 5 \<le> h \<Longrightarrow> np_take BASE_ANGLES hs = Inl IndexError"
  by (induction hs) (auto simp: take1_BASE split: sum.splits)

lemma np_take_error: "np_take arr hs = Inl e \<Longrightarrow> e = IndexError"
  by (induction hs arbitrary: e) (auto simp: take1_def Let_def split: sum.splits if_splits)

lemma np_take_length: "np_take arr hs = Inr vs \<Longrightarrow> length vs = length hs"
  by (induction hs arbitrary: vs) (auto split: sum.splits)

lemma np_take_nth: "np_take arr hs = Inr vs \<Longrightarrow> i < length hs \<Longrightarrow> take1 arr (hs ! i) = Inr (vs ! i)"
  by (induction hs arbitrary: vs i) (auto split: sum.splits simp: nth_Cons split: nat.splits)

lemma nan_to_num_number: "a \<noteq> NaN \<Longrightarrow> nan_to_num a = a"
  by (cases a) simp_all

lemma fl_band: "(fl_gt a lo \<and> fl_lt a hi) = (\<exists>r. a = Fin r \<and> lo < r \<and> r < hi)"
  by (cases a) auto

lemma band_any_padded:
  assumes "NaN \<in> set row \<longrightarrow> \<not> (ideal - t < 0 \<and> 0 < ideal + t)"
  shows "band_any (map nan_to_num row) ideal t =
           (\<exists>r. Fin r \<in> set row \<and> ideal - t < r \<and> r < ideal + t)"
proof
  assume "band_any (map nan_to_num row) ideal t"
  then obtain a where a: "a \<in> set row" "fl_gt (nan_to_num a) (ideal - t)"
      "fl_lt (nan_to_num a) (ideal + t)"
    by (auto simp: band_any_def Let_def list_ex_iff)
  show "\<exists>r. Fin r \<in> set row \<and> ideal - t < r \<and> r < ideal + t"
  proof (cases a)
    case NaN
    with a assms show ?thesis by simp
  next
    case (Fin r)
    with a show ?thesis by auto
  qed
next
  assume "\<exists>r. Fin r \<in> set row \<and> ideal - t < r \<and> r < ideal + t"
  then obtain r where r: "Fin r \<in> set row" "ideal - t < r" "r < ideal + t" by blast
  have "fl_gt (nan_to_num (Fin r)) (ideal - t) \<and> fl_lt (nan_to_num (Fin r)) (ideal + t)"
    using r(2,3) by simp
  with r(1) show "band_any (map nan_to_num row) ideal t"
    unfolding band_any_def Let_def list_ex_iff by (metis image_eqI set_map)
qed

lemma band_any_mono:
  assumes "t1 \<le> t2" and "band_any row ideal t1"
  shows "band_any row ideal t2"
proof -
  from assms(2) obtain a r where a: "a \<in> set row" "a = Fin r" "ideal - t1 < r" "r < ideal + t1"
    by (auto simp: band_any_def Let_def list_ex_iff fl_band)
  with assms(1) have "ideal - t2 < r" "r < ideal + t2" by simp_all
  with a show ?thesis
    by (auto simp: band_any_def Let_def list_ex_iff fl_band)
qed

lemma check_angles_rows:
  "length angles = length hs \<Longrightarrow> \<forall>h \<in> set hs. - 5 \<le> h \<and> h < 5 \<Longrightarrow>
     check_angles angles hs t =
       Inr (map2 (\<lambda>row h. band_any (map nan_to_num row) (BASE_ANGLES ! nat (h mod 5)) t) angles hs)"
  by (simp add: check_angles_def np_take_Inr zip_map1 zip_map2 map_zip_map map_zip_map2 case_prod_unfold)

lemma check_angles_Inl:
  "h \<in> set hs \<Longrightarrow> h < - 5 \<or> 5 \<le> h \<Longrightarrow> check_angles angles hs t = Inl IndexError"
  by (simp add: check_angles_def np_take_Inl)

lemma check_angles_Inr_codes:
  "check_angles angles hs t = Inr s \<Longrightarrow> \<forall>h \<in> set hs. - 5 \<le> h \<and> h < 5"
  using check_angles_Inl [of _ hs angles t] by fastforce

text \<open>
  Claim C1. The claim is that a pair all of whose measured angles are not-a-number is never
  strict, for every hybridization code and every tolerance above zero. The classifier
  replaces not-a-number by zero before comparing, and zero lies inside the band of code 0
  (ideal angle 0) for every tolerance above zero, and inside the band of any other code
  once the tolerance exceeds its ideal angle: such a pair is classified strict. The third
  evaluation is a detector call: an acceptor of code 0 whose only neighbour slot gives an
  undefined angle, with a metal 2.0 away.
\<close>

theorem check_angles_nan_strict:
  "check_angles [[NaN, NaN]] [0] 30 = Inr [True]
   \<and> check_angles [[NaN]] [4] 100 = Inr [True]
   \<and> acceptor_metal axis_metric (\<lambda>_ _ _. NaN) mol_degenerate mol_partners 30 4
       = Inr ([acceptor_degenerate], [metal_at_2], [True])"
  by code_simp

text \<open>
  Claim C4, as stated, at two inputs: at code 5 the classifier raises instead of
  returning a boolean, and at code 0 with tolerance 30 a single not-a-number angle is
  classified strict although no measured angle lies in the band.
\<close>

theorem check_angles_band_counterexample:
  "check_angles [[Fin 90]] [5] 30 = Inl IndexError
   \<and> check_angles [[NaN]] [0] 30 = Inr [True]
   \<and> \<not> (fl_gt NaN (BASE_ANGLES ! 0 - 30) \<and> fl_lt NaN (BASE_ANGLES ! 0 + 30))"
  by code_simp

text \<open>
  Claim C4, amended. For every array of measured angles with one row per code, every code
  \<open>h\<close> with \<open>-5 \<le> h < 5\<close> (where \<^verbatim>\<open>BASE_ANGLES[h]\<close> exists, a negative code counting
  from the end of the table) and every tolerance \<open>t\<close>, provided that no row holding a
  not-a-number angle has zero strictly inside the band of its code: the classifier returns,
  for each pair, whether at least one of the pair's angles \<open>r\<close> satisfies
  \<open>BASE_ANGLES[h] - t < r < BASE_ANGLES[h] + t\<close>. The band is open at both ends and one
  angle inside it suffices; not-a-number slots beside the numbers do not change the result.
\<close>

theorem check_angles_band:
  assumes "length angles = length hybridizations"
    and "\<forall>h \<in> set hybridizations. - 5 \<le> h \<and> h < 5"
    and "\<forall>(row, h) \<in> set (zip angles hybridizations).
           NaN \<in> set row \<longrightarrow>
           \<not> (BASE_ANGLES ! nat (h mod 5) - t < 0 \<and> 0 < BASE_ANGLES ! nat (h mod 5) + t)"
  shows "check_angles angles hybridizations t =
           Inr (map2 (\<lambda>row h. \<exists>r. Fin r \<in> set row \<and>
                                  BASE_ANGLES ! nat (h mod 5) - t < r \<and>
                                  r < BASE_ANGLES ! nat (h mod 5) + t)
                  angles hybridizations)"
proof -
  have "map2 (\<lambda>row h. band_any (map nan_to_num row) (BASE_ANGLES ! nat (h mod 5)) t) angles hybridizations
      = map2 (\<lambda>row h. \<exists>r. Fin r \<in> set row \<and> BASE_ANGLES ! nat (h mod 5) - t < r \<and>
                                  r < BASE_ANGLES ! nat (h mod 5) + t) angles hybridizations"
  proof (rule map_cong [OF refl])
    fix p assume p: "p \<in> set (zip angles hybridizations)"
    obtain row h where ph: "p = (row, h)" by (cases p)
    from assms(3) p ph
    have "NaN \<in> set row \<longrightarrow>
           \<not> (BASE_ANGLES ! nat (h mod 5) - t < 0 \<and> 0 < BASE_ANGLES ! nat (h mod 5) + t)"
      by blast
    from band_any_padded [OF this] ph
    show "(case p of (row, h) \<Rightarrow> band_any (map nan_to_num row) (BASE_ANGLES ! nat (h mod 5)) t)
      = (case p of (row, h) \<Rightarrow> \<exists>r. Fin r \<in> set row \<and> BASE_ANGLES ! nat (h mod 5) - t < r \<and>
                                  r < BASE_ANGLES ! nat (h mod 5) + t)"
      by simp
  qed
  with check_angles_rows [OF assms(1,2)] show ?thesis by simp
qed

theorem check_angles_band_witness:
  "check_angles [[Fin 179, NaN, NaN, NaN], [Fin 150, Fin 100, NaN, NaN], [NaN, NaN, NaN, NaN]]
     [1, 1, 3] 30 = Inr [True, False, False]"
proof -
  have e: "\<exists>r::real. r = 179 \<and> 150 < r \<and> r < 210"
    by (rule exI [of _ 179]) simp
  show ?thesis
    using e check_angles_band [of
        "[[Fin 179, NaN, NaN, NaN], [Fin 150, Fin 100, NaN, NaN], [NaN, NaN, NaN, NaN]]"
        "[1, 1, 3]" 30]
    by (simp add: BASE_ANGLES_def)
qed

text \<open>
  Claim C7. The classifier is monotone in the tolerance: when it returns for tolerance
  \<open>t1\<close>, it returns for every \<open>t2 \<ge> t1\<close>, and every pair strict at \<open>t1\<close> is strict at
  \<open>t2\<close>.
\<close>

theorem check_angles_mono:
  assumes "t1 \<le> t2" and "check_angles angles hybridizations t1 = Inr s1"
  shows "\<exists>s2. check_angles angles hybridizations t2 = Inr s2 \<and> length s2 = length s1 \<and>
              (\<forall>i < length s1. s1 ! i \<longrightarrow> s2 ! i)"
  using assms
  by (auto simp: check_angles_def Let_def split: sum.splits if_splits intro: band_any_mono)

theorem check_angles_mono_witness:
  "(10::real) \<le> 30 \<and> check_angles [[Fin 175], [Fin 100]] [1, 1] 10 = Inr [True, False]
   \<and> (\<exists>s2. check_angles [[Fin 175], [Fin 100]] [1, 1] 30 = Inr s2 \<and> length s2 = 2 \<and> s2 ! 0)"
proof -
  have le: "(10::real) \<le> 30" by simp
  have c: "check_angles [[Fin 175], [Fin 100]] [1, 1] 10 = Inr [True, False]"
    by code_simp
  show ?thesis
    using le c check_angles_mono [OF le c] by auto
qed

lemma check_angles_error:
  "length angles = length hs \<Longrightarrow> check_angles angles hs t = Inl e \<Longrightarrow> e = IndexError"
  by (auto simp: check_angles_def Let_def split: sum.splits if_splits dest: np_take_error np_take_length)

lemma check_angles_length:
  "length angles = length hs \<Longrightarrow> check_angles angles hs t = Inr s \<Longrightarrow> length s = length hs"
  by (auto simp: check_angles_def Let_def split: sum.splits if_splits dest: np_take_length)

lemma check_angles_nth:
  assumes "length angles = length hs" and "check_angles angles hs t = Inr s" and "i < length hs"
  shows "check_angles [angles ! i] [hs ! i] t = Inr [s ! i]"
proof -
  from assms(2) have codes: "\<forall>h \<in> set hs. - 5 \<le> h \<and> h < 5"
    by (rule check_angles_Inr_codes)
  with assms(3) have "- 5 \<le> hs ! i \<and> hs ! i < 5" by simp
  then have "check_angles [angles ! i] [hs ! i] t =
      Inr [band_any (map nan_to_num (angles ! i)) (BASE_ANGLES ! nat (hs ! i mod 5)) t]"
    using check_angles_rows [of "[angles ! i]" "[hs ! i]" t] by simp
  moreover from check_angles_rows [OF assms(1) codes, of t] assms(2,3,1)
  have "s ! i = band_any (map nan_to_num (angles ! i)) (BASE_ANGLES ! nat (hs ! i mod 5)) t"
    by auto
  ultimately show ?thesis by simp
qed

section \<open>Properties of the detectors\<close>

lemma hbond_acceptor_donor_cases:
  assumes cc: "close_contacts metric (filter isacceptor (atom_dict mol1))
                 (filter isdonor (atom_dict mol2)) cutoff coords coords 0 = (a, d)"
  shows "hbond_acceptor_donor metric angle mol1 mol2 cutoff t =
     (if a = [] then Inr ([], [], [])
      else case check_angles (map2 (\<lambda>di ai. map (angle (coords di) (coords ai)) (neighbors ai)) d a)
                  (map hybridization a) t of
             Inl e \<Rightarrow> Inl e
           | Inr s1 \<Rightarrow>
               (case check_angles (map2 (\<lambda>ai di. map (angle (coords ai) (coords di)) (neighbors di)) a d)
                       (map hybridization d) t of
                  Inl e \<Rightarrow> Inl e
                | Inr s2 \<Rightarrow> Inr (a, d, map2 (\<and>) s1 s2)))"
proof -
  from cc have len: "length a = length d" by (rule close_contacts_length)
  show ?thesis
    using len by (auto simp: hbond_acceptor_donor_def cc Let_def)
qed

lemma halogenbond_acceptor_halogen_cases:
  assumes cc: "close_contacts metric (filter isacceptor (atom_dict mol1))
                 (filter ishalogen (atom_dict mol2)) cutoff coords coords 0 = (a, d)"
  shows "halogenbond_acceptor_halogen metric angle mol1 mol2 t cutoff =
     (if a = [] then Inr ([], [], [])
      else case check_angles (map2 (\<lambda>di ai. map (angle (coords di) (coords ai)) (neighbors ai)) d a)
                  (map hybridization a) t of
             Inl e \<Rightarrow> Inl e
           | Inr s1 \<Rightarrow>
               (case check_angles (map2 (\<lambda>ai di. map (angle (coords ai) (coords di)) (neighbors di)) a d)
                       (map hybridization d) t of
                  Inl e \<Rightarrow> Inl e
                | Inr s2 \<Rightarrow> Inr (a, d, map2 (\<and>) s1 s2)))"
proof -
  from cc have len: "length a = length d" by (rule close_contacts_length)
  show ?thesis
    using len by (auto simp: halogenbond_acceptor_halogen_def cc Let_def)
qed

lemma acceptor_metal_cases:
  assumes cc: "close_contacts metric (filter isacceptor (atom_dict mol1))
                 (filter ismetal (atom_dict mol2)) cutoff coords coords 0 = (a, m)"
  shows "acceptor_metal metric angle mol1 mol2 t cutoff =
     (if a = [] then Inr ([], [], [])
      else case check_angles (map2 (\<lambda>mi ai. map (angle (coords mi) (coords ai)) (neighbors ai)) m a)
                  (map hybridization a) t of
             Inl e \<Rightarrow> Inl e
           | Inr strict \<Rightarrow> Inr (a, m, strict))"
proof -
  from cc have len: "length a = length m" by (rule close_contacts_length)
  show ?thesis
    using len by (auto simp: acceptor_metal_def cc Let_def)
qed

lemma pi_stacking_cases:
  assumes cc: "close_contacts metric (ring_dict mol1) (ring_dict mol2) cutoff centroid centroid 0
                 = (r1, r2)"
  shows "pi_stacking metric angle angle_2v mol1 mol2 cutoff t =
     (r1, r2,
      map2 (\<lambda>p q. (fl_gt (angle_2v (vector p) (vector q)) (180 - t) \<or>
                     fl_lt (angle_2v (vector p) (vector q)) t) \<and>
                    (fl_gt (angle (vector p + centroid p) (centroid p) (centroid q)) (180 - t) \<or>
                     fl_lt (angle (vector p + centroid p) (centroid p) (centroid q)) t)) r1 r2,
      map2 (\<lambda>p q. (fl_gt (angle_2v (vector p) (vector q)) (90 - t) \<and>
                     fl_lt (angle_2v (vector p) (vector q)) (90 + t)) \<and>
                    (fl_gt (angle (vector p + centroid p) (centroid p) (centroid q)) (180 - t) \<or>
                     fl_lt (angle (vector p + centroid p) (centroid p) (centroid q)) t)) r1 r2)"
proof -
  from cc have len: "length r1 = length r2" by (rule close_contacts_length)
  have z: "\<And>f g. map2 f (map2 (\<lambda>p q. angle_2v (vector p) (vector q)) r1 r2)
                    (map2 g r1 r2)
            = map2 (\<lambda>p q. f (angle_2v (vector p) (vector q)) (g p q)) r1 r2"
    using len by (intro nth_equalityI) simp_all
  show ?thesis
    using len by (auto simp: pi_stacking_def cc Let_def z)
qed

text \<open>
  Claim C3. A detector whose selected subset is empty on either side returns empty arrays
  and an empty strictness array, and does not raise; this includes the case where only the
  second subset is empty, which passes the guard of \<^verbatim>\<open>close_contacts\<close> and yields an
  empty distance matrix. For the three bidirectional detectors the subsets of both
  single-sided calls are meant.
\<close>

theorem detectors_empty:
  "(x = [] \<or> y = [] \<longrightarrow> close_contacts metric x y cutoff xc yc lo = ([], []))
   \<and> (filter isacceptor (atom_dict mol1) = [] \<or> filter isdonor (atom_dict mol2) = [] \<longrightarrow>
        hbond_acceptor_donor metric angle mol1 mol2 cutoff t = Inr ([], [], []))
   \<and> ((filter isacceptor (atom_dict mol1) = [] \<or> filter isdonor (atom_dict mol2) = []) \<and>
       (filter isacceptor (atom_dict mol2) = [] \<or> filter isdonor (atom_dict mol1) = []) \<longrightarrow>
        hbonds metric angle mol1 mol2 cutoff t = Inr ([], [], []))
   \<and> (filter isacceptor (atom_dict mol1) = [] \<or> filter ishalogen (atom_dict mol2) = [] \<longrightarrow>
        halogenbond_acceptor_halogen metric angle mol1 mol2 t cutoff = Inr ([], [], []))
   \<and> ((filter isacceptor (atom_dict mol1) = [] \<or> filter ishalogen (atom_dict mol2) = []) \<and>
       (filter isacceptor (atom_dict mol2) = [] \<or> filter ishalogen (atom_dict mol1) = []) \<longrightarrow>
        halogenbonds metric angle mol1 mol2 cutoff t = Inr ([], [], []))
   \<and> (ring_dict mol1 = [] \<or> ring_dict mol2 = [] \<longrightarrow>
        pi_stacking metric angle angle_2v mol1 mol2 cutoff t = ([], [], [], []))
   \<and> (filter isplus (atom_dict mol1) = [] \<or> filter isminus (atom_dict mol2) = [] \<longrightarrow>
        salt_bridge_plus_minus metric mol1 mol2 cutoff = ([], []))
   \<and> ((filter isplus (atom_dict mol1) = [] \<or> filter isminus (atom_dict mol2) = []) \<and>
       (filter isplus (atom_dict mol2) = [] \<or> filter isminus (atom_dict mol1) = []) \<longrightarrow>
        salt_bridges metric mol1 mol2 cutoff = ([], []))
   \<and> (filter ishydrophobe (atom_dict mol1) = [] \<or> filter ishydrophobe (atom_dict mol2) = [] \<longrightarrow>
        hydrophobic_contacts metric mol1 mol2 cutoff = ([], []))
   \<and> (ring_dict mol1 = [] \<or> filter isplus (atom_dict mol2) = [] \<longrightarrow>
        pi_cation metric angle_2v mol1 mol2 cutoff t = ([], [], []))
   \<and> (filter isacceptor (atom_dict mol1) = [] \<or> filter ismetal (atom_dict mol2) = [] \<longrightarrow>
        acceptor_metal metric angle mol1 mol2 t cutoff = Inr ([], [], []))
   \<and> (ring_dict mol1 = [] \<or> filter ismetal (atom_dict mol2) = [] \<longrightarrow>
        pi_metal metric angle_2v mol1 mol2 cutoff t = ([], [], []))"
proof -
  have cc: "x = [] \<or> y = [] \<longrightarrow> close_contacts metric x y cutoff xc yc lo = ([], [])"
    by auto
  have hb: "hbond_acceptor_donor metric angle m1 m2 cutoff t = Inr ([], [], [])"
    if "filter isacceptor (atom_dict m1) = [] \<or> filter isdonor (atom_dict m2) = []"
    for m1 m2 :: "'c molecule"
    using that by (auto simp: hbond_acceptor_donor_def)
  have xb: "halogenbond_acceptor_halogen metric angle m1 m2 t cutoff = Inr ([], [], [])"
    if "filter isacceptor (atom_dict m1) = [] \<or> filter ishalogen (atom_dict m2) = []"
    for m1 m2 :: "'c molecule"
    using that by (auto simp: halogenbond_acceptor_halogen_def)
  have sb: "salt_bridge_plus_minus metric m1 m2 cutoff = ([], [])"
    if "filter isplus (atom_dict m1) = [] \<or> filter isminus (atom_dict m2) = []"
    for m1 m2 :: "'c molecule"
    using that by (auto simp: salt_bridge_plus_minus_def)
  have ps: "ring_dict mol1 = [] \<or> ring_dict mol2 = [] \<longrightarrow>
        pi_stacking metric angle angle_2v mol1 mol2 cutoff t = ([], [], [], [])"
    by (auto simp: pi_stacking_def)
  have hy: "filter ishydrophobe (atom_dict mol1) = [] \<or> filter ishydrophobe (atom_dict mol2) = [] \<longrightarrow>
        hydrophobic_contacts metric mol1 mol2 cutoff = ([], [])"
    by (auto simp: hydrophobic_contacts_def)
  have pc: "ring_dict mol1 = [] \<or> filter isplus (atom_dict mol2) = [] \<longrightarrow>
        pi_cation metric angle_2v mol1 mol2 cutoff t = ([], [], [])"
    by (auto simp: pi_cation_def)
  have am: "filter isacceptor (atom_dict mol1) = [] \<or> filter ismetal (atom_dict mol2) = [] \<longrightarrow>
        acceptor_metal metric angle mol1 mol2 t cutoff = Inr ([], [], [])"
    by (auto simp: acceptor_metal_def)
  have pm: "ring_dict mol1 = [] \<or> filter ismetal (atom_dict mol2) = [] \<longrightarrow>
        pi_metal metric angle_2v mol1 mol2 cutoff t = ([], [], [])"
    by (auto simp: pi_metal_def)
  show ?thesis
    using cc ps hy pc am pm hb [of mol1 mol2] hb [of mol2 mol1] xb [of mol1 mol2] xb [of mol2 mol1]
      sb [of mol1 mol2] sb [of mol2 mol1]
    by (simp add: hbonds_def halogenbonds_def salt_bridges_def)
qed

theorem detectors_empty_witness:
  "close_contacts axis_metric [acceptor_at_0] ([] :: point atom list) 3.5 coords coords 0 = ([], [])
   \<and> hbond_acceptor_donor axis_metric (\<lambda>_ _ _. NaN) mol_acceptor mol_empty 3.5 30 = Inr ([], [], [])
   \<and> hbonds axis_metric (\<lambda>_ _ _. NaN) mol_acceptor mol_empty 3.5 30 = Inr ([], [], [])
   \<and> halogenbond_acceptor_halogen axis_metric (\<lambda>_ _ _. NaN) mol_acceptor mol_empty 30 3.5 = Inr ([], [], [])
   \<and> halogenbonds axis_metric (\<lambda>_ _ _. NaN) mol_acceptor mol_empty 3.5 30 = Inr ([], [], [])
   \<and> pi_stacking axis_metric (\<lambda>_ _ _. NaN) (\<lambda>_ _. NaN) mol_acceptor mol_empty 3.5 30 = ([], [], [], [])
   \<and> salt_bridge_plus_minus axis_metric mol_acceptor mol_empty 3.5 = ([], [])
   \<and> salt_bridges axis_metric mol_acceptor mol_empty 3.5 = ([], [])
   \<and> hydrophobic_contacts axis_metric mol_acceptor mol_empty 3.5 = ([], [])
   \<and> pi_cation axis_metric (\<lambda>_ _. NaN) mol_acceptor mol_empty 3.5 30 = ([], [], [])
   \<and> acceptor_metal axis_metric (\<lambda>_ _ _. NaN) mol_acceptor mol_empty 30 3.5 = Inr ([], [], [])
   \<and> pi_metal axis_metric (\<lambda>_ _. NaN) mol_acceptor mol_empty 3.5 30 = ([], [], [])"
  using detectors_empty [where x = "[acceptor_at_0]" and y = "[] :: point atom list"
      and metric = axis_metric and cutoff = "3.5" and xc = coords and yc = coords and lo = 0
      and ?mol1.0 = mol_acceptor and ?mol2.0 = mol_empty and angle = "\<lambda>_ _ _. NaN" and t = 30
      and angle_2v = "\<lambda>_ _. NaN"]
  by (simp add: mol_acceptor_def mol_empty_def)

lemma hbond_acceptor_donor_sides:
  assumes "hbond_acceptor_donor metric angle mol1 mol2 cutoff t = Inr (a, d, s)"
  shows "set a \<subseteq> set (atom_dict mol1)" and "set d \<subseteq> set (atom_dict mol2)"
    and "length a = length d"
proof -
  obtain a' d' where cc: "close_contacts metric (filter isacceptor (atom_dict mol1))
                 (filter isdonor (atom_dict mol2)) cutoff coords coords 0 = (a', d')"
    by (cases "close_contacts metric (filter isacceptor (atom_dict mol1))
                 (filter isdonor (atom_dict mol2)) cutoff coords coords 0") 
  from assms have "(a = [] \<and> d = []) \<or> (a = a' \<and> d = d')"
    unfolding hbond_acceptor_donor_cases [OF cc]
    by (auto split: if_splits sum.splits)
  with close_contacts_subset [OF cc] close_contacts_length [OF cc]
  show "set a \<subseteq> set (atom_dict mol1)" and "set d \<subseteq> set (atom_dict mol2)"
    and "length a = length d"
    by auto
qed





text \<open>
  Claim C8. For every pair that \<^verbatim>\<open>hbond_acceptor_donor\<close> emits, the strict flag is the
  conjunction of the classifier on the acceptor side (the angles at the acceptor between the
  donor and each acceptor neighbour, against the acceptor's hybridization) and on the donor
  side (the angles at the donor between the acceptor and each donor neighbour, against the
  donor's hybridization). In the scenario, an acceptor and a donor 3.0 apart with cutoff 3.5
  are emitted; with every measured angle 179 degrees and both codes 1 (ideal 180) the pair
  is strict at tolerance 30 and not strict at tolerance 0.
\<close>

theorem hbond_strict_conjunction:
  "(hbond_acceptor_donor metric angle mol1 mol2 cutoff t = Inr (a, d, strict) \<longrightarrow>
      length d = length a \<and> length strict = length a \<and>
      (\<forall>i < length a. \<exists>s1 s2.
         check_angles [map (angle (coords (d ! i)) (coords (a ! i))) (neighbors (a ! i))]
           [hybridization (a ! i)] t = Inr [s1] \<and>
         check_angles [map (angle (coords (a ! i)) (coords (d ! i))) (neighbors (d ! i))]
           [hybridization (d ! i)] t = Inr [s2] \<and>
         strict ! i = (s1 \<and> s2)))
   \<and> axis_metric (coords acceptor_at_0) (coords donor_at_3) = Fin 3
   \<and> hbond_acceptor_donor axis_metric (\<lambda>_ _ _. Fin 179) mol_acceptor mol_donor 3.5 30
       = Inr ([acceptor_at_0], [donor_at_3], [True])
   \<and> hbond_acceptor_donor axis_metric (\<lambda>_ _ _. Fin 179) mol_acceptor mol_donor 3.5 0
       = Inr ([acceptor_at_0], [donor_at_3], [False])"
proof -
  have gen: "length d = length a \<and> length strict = length a \<and>
      (\<forall>i < length a. \<exists>s1 s2.
         check_angles [map (angle (coords (d ! i)) (coords (a ! i))) (neighbors (a ! i))]
           [hybridization (a ! i)] t = Inr [s1] \<and>
         check_angles [map (angle (coords (a ! i)) (coords (d ! i))) (neighbors (d ! i))]
           [hybridization (d ! i)] t = Inr [s2] \<and>
         strict ! i = (s1 \<and> s2))"
    if h: "hbond_acceptor_donor metric angle mol1 mol2 cutoff t = Inr (a, d, strict)"
  proof -
  obtain a' d' where cc: "close_contacts metric (filter isacceptor (atom_dict mol1))
                 (filter isdonor (atom_dict mol2)) cutoff coords coords 0 = (a', d')"
    by (cases "close_contacts metric (filter isacceptor (atom_dict mol1))
                 (filter isdonor (atom_dict mol2)) cutoff coords coords 0")
  from cc have len': "length a' = length d'" by (rule close_contacts_length)
  let ?angle1 = "map2 (\<lambda>di ai. map (angle (coords di) (coords ai)) (neighbors ai)) d' a'"
  let ?angle2 = "map2 (\<lambda>ai di. map (angle (coords ai) (coords di)) (neighbors di)) a' d'"
  have ld: "length d = length a"
    using hbond_acceptor_donor_sides(3) [OF h] by simp
  show ?thesis
  proof (cases "a' = []")
    case True
    with h show ?thesis
      by (simp add: hbond_acceptor_donor_cases [OF cc])
  next
    case False
    with h obtain s1 s2 where
      c1: "check_angles ?angle1 (map hybridization a') t = Inr s1" and
      c2: "check_angles ?angle2 (map hybridization d') t = Inr s2" and
      r: "a = a'" "d = d'" "strict = map2 (\<and>) s1 s2"
      by (auto simp: hbond_acceptor_donor_cases [OF cc] split: sum.splits)
    have l1: "length ?angle1 = length (map hybridization a')" using len' by simp
    have l2: "length ?angle2 = length (map hybridization d')" using len' by simp
    note n1 = check_angles_length [OF l1 c1] and n2 = check_angles_length [OF l2 c2]
    have "length strict = length a"
      using n1 n2 len' r by simp
    moreover have "\<exists>u1 u2.
         check_angles [map (angle (coords (d ! i)) (coords (a ! i))) (neighbors (a ! i))]
           [hybridization (a ! i)] t = Inr [u1] \<and>
         check_angles [map (angle (coords (a ! i)) (coords (d ! i))) (neighbors (d ! i))]
           [hybridization (d ! i)] t = Inr [u2] \<and>
         strict ! i = (u1 \<and> u2)" if i: "i < length a" for i
    proof -
      from i r len' have i1: "i < length (map hybridization a')"
        and i2: "i < length (map hybridization d')" by simp_all
      from check_angles_nth [OF l1 c1 i1] i r len'
      have e1: "check_angles [map (angle (coords (d ! i)) (coords (a ! i))) (neighbors (a ! i))]
           [hybridization (a ! i)] t = Inr [s1 ! i]" by simp
      from check_angles_nth [OF l2 c2 i2] i r len'
      have e2: "check_angles [map (angle (coords (a ! i)) (coords (d ! i))) (neighbors (d ! i))]
           [hybridization (d ! i)] t = Inr [s2 ! i]" by simp
      from i r n1 n2 len' have "strict ! i = (s1 ! i \<and> s2 ! i)" by simp
      with e1 e2 show ?thesis by blast
    qed
    ultimately show ?thesis using ld by blast
  qed
  qed
  have c0: "axis_metric (coords acceptor_at_0) (coords donor_at_3) = Fin 3"
    by (simp add: axis_metric_def acceptor_at_0_def donor_at_3_def plain_atom_def)
  have c1: "hbond_acceptor_donor axis_metric (\<lambda>_ _ _. Fin 179) mol_acceptor mol_donor 3.5 30
       = Inr ([acceptor_at_0], [donor_at_3], [True])"
    by code_simp
  have c2: "hbond_acceptor_donor axis_metric (\<lambda>_ _ _. Fin 179) mol_acceptor mol_donor 3.5 0
       = Inr ([acceptor_at_0], [donor_at_3], [False])"
    by code_simp
  from gen c0 c1 c2 show ?thesis by blast
qed

theorem hbond_strict_conjunction_witness:
  "hbond_acceptor_donor axis_metric (\<lambda>_ _ _. Fin 179) mol_acceptor mol_donor 3.5 30
       = Inr ([acceptor_at_0], [donor_at_3], [True])
   \<and> (\<exists>s1 s2.
         check_angles [map (\<lambda>_. Fin 179) (neighbors acceptor_at_0)]
           [hybridization acceptor_at_0] 30 = Inr [s1] \<and>
         check_angles [map (\<lambda>_. Fin 179) (neighbors donor_at_3)]
           [hybridization donor_at_3] 30 = Inr [s2] \<and> (s1 \<and> s2))"
proof -
  have h: "hbond_acceptor_donor axis_metric (\<lambda>_ _ _. Fin 179) mol_acceptor mol_donor 3.5 30
       = Inr ([acceptor_at_0], [donor_at_3], [True])"
    by code_simp
  show ?thesis
    using h hbond_strict_conjunction [where metric = axis_metric and angle = "\<lambda>_ _ _. Fin 179"
        and ?mol1.0 = mol_acceptor and ?mol2.0 = mol_donor and cutoff = "3.5" and t = 30
        and a = "[acceptor_at_0]" and d = "[donor_at_3]" and strict = "[True]"]
    by simp
qed

lemma bands_disjoint:
  "t \<le> 45 \<Longrightarrow> \<not> ((fl_gt a (180 - t) \<or> fl_lt a t) \<and> (fl_gt a (90 - t) \<and> fl_lt a (90 + t)))"
  by (cases a) auto

lemma pi_stacking_nth:
  assumes "pi_stacking metric angle angle_2v mol1 mol2 cutoff t = (r1, r2, strict_parallel, strict_perpendicular)"
  shows "length r2 = length r1" and "length strict_parallel = length r1"
    and "length strict_perpendicular = length r1"
    and "i < length r1 \<Longrightarrow>
         strict_parallel ! i =
           ((fl_gt (angle_2v (vector (r1 ! i)) (vector (r2 ! i))) (180 - t) \<or>
             fl_lt (angle_2v (vector (r1 ! i)) (vector (r2 ! i))) t) \<and>
            (fl_gt (angle (vector (r1 ! i) + centroid (r1 ! i)) (centroid (r1 ! i)) (centroid (r2 ! i))) (180 - t) \<or>
             fl_lt (angle (vector (r1 ! i) + centroid (r1 ! i)) (centroid (r1 ! i)) (centroid (r2 ! i))) t))"
    and "i < length r1 \<Longrightarrow>
         strict_perpendicular ! i =
           ((fl_gt (angle_2v (vector (r1 ! i)) (vector (r2 ! i))) (90 - t) \<and>
             fl_lt (angle_2v (vector (r1 ! i)) (vector (r2 ! i))) (90 + t)) \<and>
            (fl_gt (angle (vector (r1 ! i) + centroid (r1 ! i)) (centroid (r1 ! i)) (centroid (r2 ! i))) (180 - t) \<or>
             fl_lt (angle (vector (r1 ! i) + centroid (r1 ! i)) (centroid (r1 ! i)) (centroid (r2 ! i))) t))"
proof -
  obtain q1 q2 where cc: "close_contacts metric (ring_dict mol1) (ring_dict mol2) cutoff
                            centroid centroid 0 = (q1, q2)"
    by (cases "close_contacts metric (ring_dict mol1) (ring_dict mol2) cutoff centroid centroid 0")
  from cc have len: "length q1 = length q2" by (rule close_contacts_length)
  note r = assms [unfolded pi_stacking_cases [OF cc]]
  from r len show "length r2 = length r1" and "length strict_parallel = length r1"
    and "length strict_perpendicular = length r1" by auto
  from r len show "i < length r1 \<Longrightarrow>
         strict_parallel ! i =
           ((fl_gt (angle_2v (vector (r1 ! i)) (vector (r2 ! i))) (180 - t) \<or>
             fl_lt (angle_2v (vector (r1 ! i)) (vector (r2 ! i))) t) \<and>
            (fl_gt (angle (vector (r1 ! i) + centroid (r1 ! i)) (centroid (r1 ! i)) (centroid (r2 ! i))) (180 - t) \<or>
             fl_lt (angle (vector (r1 ! i) + centroid (r1 ! i)) (centroid (r1 ! i)) (centroid (r2 ! i))) t))"
    by auto
  from r len show "i < length r1 \<Longrightarrow>
         strict_perpendicular ! i =
           ((fl_gt (angle_2v (vector (r1 ! i)) (vector (r2 ! i))) (90 - t) \<and>
             fl_lt (angle_2v (vector (r1 ! i)) (vector (r2 ! i))) (90 + t)) \<and>
            (fl_gt (angle (vector (r1 ! i) + centroid (r1 ! i)) (centroid (r1 ! i)) (centroid (r2 ! i))) (180 - t) \<or>
             fl_lt (angle (vector (r1 ! i) + centroid (r1 ! i)) (centroid (r1 ! i)) (centroid (r2 ! i))) t))"
    by auto
qed

lemma pi_stacking_pairs:
  assumes "pi_stacking metric angle angle_2v mol1 mol2 cutoff t = (r1, r2, strict_parallel, strict_perpendicular)"
  shows "close_contacts metric (ring_dict mol1) (ring_dict mol2) cutoff centroid centroid 0 = (r1, r2)"
proof -
  obtain q1 q2 where cc: "close_contacts metric (ring_dict mol1) (ring_dict mol2) cutoff
                            centroid centroid 0 = (q1, q2)"
    by (cases "close_contacts metric (ring_dict mol1) (ring_dict mol2) cutoff centroid centroid 0")
  from assms [unfolded pi_stacking_cases [OF cc]] cc show ?thesis by simp
qed

text \<open>
  Claim C5. \<^verbatim>\<open>pi_stacking\<close> returns the ring pairs within the cutoff, that is the rows
  of the two ring collections at exactly the index pairs whose centroid distance \<open>r\<close>
  satisfies \<open>0 < r \<le> cutoff\<close>, with two separate boolean arrays aligned with them.
  For pair \<open>i\<close>, with \<open>a1\<close> the angle between the two ring normals and \<open>a2\<close> the angle at
  the first centroid between the endpoint of its normal and the second centroid:
  \<open>strict_parallel\<close> is \<open>(a1 > 180 - t or a1 < t) and (a2 > 180 - t or a2 < t)\<close>, and
  \<open>strict_perpendicular\<close> is \<open>(90 - t < a1 < 90 + t) and (a2 > 180 - t or a2 < t)\<close>.
  Two rings with centroids 4.0 apart, \<open>a1 = 0\<close>, \<open>a2 = 0\<close>, cutoff 5 and tolerance 30
  give \<open>strict_parallel = true\<close> and \<open>strict_perpendicular = false\<close>; at cutoff 1 the same
  rings give no pair.
\<close>

theorem pi_stacking_bands:
  "(pi_stacking metric angle angle_2v mol1 mol2 cutoff t = (r1, r2, strict_parallel, strict_perpendicular) \<longrightarrow>
      close_contacts metric (ring_dict mol1) (ring_dict mol2) cutoff centroid centroid 0 = (r1, r2) \<and>
      (\<exists>index.
         set index =
           {(i, j). i < length (ring_dict mol1) \<and> j < length (ring_dict mol2) \<and>
              (\<exists>r. metric (centroid (ring_dict mol1 ! i)) (centroid (ring_dict mol2 ! j)) = Fin r \<and>
                   0 < r \<and> r \<le> cutoff)} \<and>
         distinct index \<and>
         r1 = map (\<lambda>k. ring_dict mol1 ! fst k) index \<and>
         r2 = map (\<lambda>k. ring_dict mol2 ! snd k) index) \<and>
      length r2 = length r1 \<and> length strict_parallel = length r1 \<and>
      length strict_perpendicular = length r1 \<and>
      (\<forall>i < length r1.
         strict_parallel ! i =
           ((fl_gt (angle_2v (vector (r1 ! i)) (vector (r2 ! i))) (180 - t) \<or>
             fl_lt (angle_2v (vector (r1 ! i)) (vector (r2 ! i))) t) \<and>
            (fl_gt (angle (vector (r1 ! i) + centroid (r1 ! i)) (centroid (r1 ! i)) (centroid (r2 ! i))) (180 - t) \<or>
             fl_lt (angle (vector (r1 ! i) + centroid (r1 ! i)) (centroid (r1 ! i)) (centroid (r2 ! i))) t)) \<and>
         strict_perpendicular ! i =
           ((fl_gt (angle_2v (vector (r1 ! i)) (vector (r2 ! i))) (90 - t) \<and>
             fl_lt (angle_2v (vector (r1 ! i)) (vector (r2 ! i))) (90 + t)) \<and>
            (fl_gt (angle (vector (r1 ! i) + centroid (r1 ! i)) (centroid (r1 ! i)) (centroid (r2 ! i))) (180 - t) \<or>
             fl_lt (angle (vector (r1 ! i) + centroid (r1 ! i)) (centroid (r1 ! i)) (centroid (r2 ! i))) t))))
   \<and> axis_metric (centroid ring_at_0) (centroid ring_at_4) = Fin 4
   \<and> pi_stacking axis_metric (\<lambda>_ _ _. Fin 0) (\<lambda>_ _. Fin 0) mol_site mol_ligand 5 30
       = ([ring_at_0], [ring_at_4], [True], [False])
   \<and> pi_stacking axis_metric (\<lambda>_ _ _. Fin 0) (\<lambda>_ _. Fin 0) mol_site mol_ligand 1 30
       = ([], [], [], [])"
proof -
  have c0: "axis_metric (centroid ring_at_0) (centroid ring_at_4) = Fin 4"
    by (simp add: axis_metric_def ring_at_0_def ring_at_4_def)
  have c1: "pi_stacking axis_metric (\<lambda>_ _ _. Fin 0) (\<lambda>_ _. Fin 0) mol_site mol_ligand 5 30
       = ([ring_at_0], [ring_at_4], [True], [False])"
    by code_simp
  have c2: "pi_stacking axis_metric (\<lambda>_ _ _. Fin 0) (\<lambda>_ _. Fin 0) mol_site mol_ligand 1 30
       = ([], [], [], [])"
    by code_simp
  have link: "close_contacts metric (ring_dict mol1) (ring_dict mol2) cutoff centroid centroid 0 = (r1, r2) \<and>
      (\<exists>index.
         set index =
           {(i, j). i < length (ring_dict mol1) \<and> j < length (ring_dict mol2) \<and>
              (\<exists>r. metric (centroid (ring_dict mol1 ! i)) (centroid (ring_dict mol2 ! j)) = Fin r \<and>
                   0 < r \<and> r \<le> cutoff)} \<and>
         distinct index \<and>
         r1 = map (\<lambda>k. ring_dict mol1 ! fst k) index \<and>
         r2 = map (\<lambda>k. ring_dict mol2 ! snd k) index)"
    if h: "pi_stacking metric angle angle_2v mol1 mol2 cutoff t = (r1, r2, strict_parallel, strict_perpendicular)"
  proof -
    let ?index = "contact_index metric (map centroid (ring_dict mol1))
                    (map centroid (ring_dict mol2)) cutoff 0"
    note cc = pi_stacking_pairs [OF h]
    have s: "set ?index =
           {(i, j). i < length (ring_dict mol1) \<and> j < length (ring_dict mol2) \<and>
              (\<exists>r. metric (centroid (ring_dict mol1 ! i)) (centroid (ring_dict mol2 ! j)) = Fin r \<and>
                   0 < r \<and> r \<le> cutoff)}"
      unfolding contact_index_set by auto
    have d: "distinct ?index"
      by (simp add: contact_index_def argwhere_distinct)
    from cc have "r1 = map (\<lambda>k. ring_dict mol1 ! fst k) ?index"
      and "r2 = map (\<lambda>k. ring_dict mol2 ! snd k) ?index"
      by (simp_all add: close_contacts_eq)
    with s d cc show ?thesis by blast
  qed
  show ?thesis
    using c0 c1 c2 link pi_stacking_nth [of metric angle angle_2v mol1 mol2 cutoff t r1 r2
        strict_parallel strict_perpendicular]
    by blast
qed

theorem pi_stacking_bands_witness:
  "pi_stacking axis_metric (\<lambda>_ _ _. Fin 0) (\<lambda>_ _. Fin 150) mol_site mol_ligand 5 30
       = ([ring_at_0], [ring_at_4], [False], [False])
   \<and> close_contacts axis_metric (ring_dict mol_site) (ring_dict mol_ligand) 5 centroid centroid 0
       = ([ring_at_0], [ring_at_4])
   \<and> \<not> (fl_gt (Fin 150) (180 - 30) \<or> fl_lt (Fin 150) 30)"
proof -
  have h: "pi_stacking axis_metric (\<lambda>_ _ _. Fin 0) (\<lambda>_ _. Fin 150) mol_site mol_ligand 5 30
       = ([ring_at_0], [ring_at_4], [False], [False])"
    by code_simp
  note w = pi_stacking_bands [where metric = axis_metric and angle = "\<lambda>_ _ _. Fin 0"
        and angle_2v = "\<lambda>_ _. Fin 150" and ?mol1.0 = mol_site and ?mol2.0 = mol_ligand
        and cutoff = 5 and t = 30 and ?r1.0 = "[ring_at_0]" and ?r2.0 = "[ring_at_4]"
        and strict_parallel = "[False]" and strict_perpendicular = "[False]"]
  from w h have "close_contacts axis_metric (ring_dict mol_site) (ring_dict mol_ligand) 5
       centroid centroid 0 = ([ring_at_0], [ring_at_4])"
    by blast
  with h show ?thesis by simp
qed

text \<open>
  Claim C9. For a tolerance of at most 45, no ring pair returned by \<^verbatim>\<open>pi_stacking\<close> is
  both strictly parallel and strictly perpendicular: the two conditions on the angle
  between the normals exclude each other.
\<close>

theorem pi_stacking_exclusive:
  assumes "pi_stacking metric angle angle_2v mol1 mol2 cutoff t = (r1, r2, strict_parallel, strict_perpendicular)"
    and "t \<le> 45"
  shows "length strict_parallel = length r1 \<and> length strict_perpendicular = length r1 \<and>
         (\<forall>i < length r1. \<not> (strict_parallel ! i \<and> strict_perpendicular ! i))"
proof -
  note n = pi_stacking_nth [OF assms(1)]
  have "\<not> (strict_parallel ! i \<and> strict_perpendicular ! i)" if i: "i < length r1" for i
    using n(4) [OF i] n(5) [OF i]
      bands_disjoint [OF assms(2), of "angle_2v (vector (r1 ! i)) (vector (r2 ! i))"]
    by blast
  with n(2,3) show ?thesis by blast
qed

theorem pi_stacking_exclusive_witness:
  "pi_stacking axis_metric (\<lambda>_ _ _. Fin 0) (\<lambda>_ _. Fin 60) mol_site mol_ligand 5 45
       = ([ring_at_0], [ring_at_4], [False], [True])"
proof -
  have h: "pi_stacking axis_metric (\<lambda>_ _ _. Fin 0) (\<lambda>_ _. Fin 60) mol_site mol_ligand 5 45
       = ([ring_at_0], [ring_at_4], [False], [True])"
    by code_simp
  have t: "(45::real) \<le> 45" by simp
  show ?thesis
    using h pi_stacking_exclusive [OF h t] by simp
qed

text \<open>Above 45 the two bands overlap: at tolerance 60 an angle of 50 lies in both.\<close>

lemma pi_stacking_both_at_60:
  "pi_stacking axis_metric (\<lambda>_ _ _. Fin 0) (\<lambda>_ _. Fin 50) mol_site mol_ligand 5 60
       = ([ring_at_0], [ring_at_4], [True], [True])"
  by code_simp

text \<open>
  Claim C10. The classifier looks the ideal angle up with bounds checking: a hybridization
  code of 5 or more among its codes makes it raise \<^verbatim>\<open>IndexError\<close>. Hence a detector that
  classifies strictness raises as soon as an atom whose code it looks up (either atom of an
  emitted pair for \<^verbatim>\<open>hbond_acceptor_donor\<close> and \<^verbatim>\<open>halogenbond_acceptor_halogen\<close>, the
  acceptor for \<^verbatim>\<open>acceptor_metal\<close>) carries such a code.
\<close>

theorem out_of_table_code_fails:
  "(h \<in> set hybridizations \<and> 5 \<le> h \<longrightarrow>
      check_angles angles hybridizations t = Inl IndexError)
   \<and> (close_contacts metric (filter isacceptor (atom_dict mol1))
         (filter isdonor (atom_dict mol2)) cutoff coords coords 0 = (a, d) \<and>
       x \<in> set a \<union> set d \<and> 5 \<le> hybridization x \<longrightarrow>
      hbond_acceptor_donor metric angle mol1 mol2 cutoff t = Inl IndexError)
   \<and> (close_contacts metric (filter isacceptor (atom_dict mol1))
         (filter ishalogen (atom_dict mol2)) cutoff coords coords 0 = (b, g) \<and>
       y \<in> set b \<union> set g \<and> 5 \<le> hybridization y \<longrightarrow>
      halogenbond_acceptor_halogen metric angle mol1 mol2 t cutoff = Inl IndexError)
   \<and> (close_contacts metric (filter isacceptor (atom_dict mol1))
         (filter ismetal (atom_dict mol2)) cutoff coords coords 0 = (c, m) \<and>
       z \<in> set c \<and> 5 \<le> hybridization z \<longrightarrow>
      acceptor_metal metric angle mol1 mol2 t cutoff = Inl IndexError)"
proof -
  have two: "(case check_angles (map2 (\<lambda>di ai. map (angle (coords di) (coords ai)) (neighbors ai)) q p)
                  (map hybridization p) t of
             Inl e \<Rightarrow> Inl e
           | Inr s1 \<Rightarrow>
               (case check_angles (map2 (\<lambda>ai di. map (angle (coords ai) (coords di)) (neighbors di)) p q)
                       (map hybridization q) t of
                  Inl e \<Rightarrow> Inl e
                | Inr s2 \<Rightarrow> Inr (p, q, map2 (\<and>) s1 s2))) = Inl IndexError"
    if len: "length p = length q" and w: "w \<in> set p \<union> set q" and c: "5 \<le> hybridization w"
    for p q :: "'a atom list" and w
  proof (cases "w \<in> set p")
    case True
    with c have "check_angles (map2 (\<lambda>di ai. map (angle (coords di) (coords ai)) (neighbors ai)) q p)
                  (map hybridization p) t = Inl IndexError"
      by (intro check_angles_Inl [of "hybridization w"]) auto
    then show ?thesis by simp
  next
    case False
    with w have "w \<in> set q" by simp
    with c have e2: "check_angles (map2 (\<lambda>ai di. map (angle (coords ai) (coords di)) (neighbors di)) p q)
                  (map hybridization q) t = Inl IndexError"
      by (intro check_angles_Inl [of "hybridization w"]) auto
    have "length (map2 (\<lambda>di ai. map (angle (coords di) (coords ai)) (neighbors ai)) q p)
            = length (map hybridization p)"
      using len by simp
    from check_angles_error [OF this] e2 show ?thesis
      by (auto split: sum.splits)
  qed
  have c1: "h \<in> set hybridizations \<and> 5 \<le> h \<longrightarrow>
      check_angles angles hybridizations t = Inl IndexError"
    using check_angles_Inl [of h hybridizations angles t] by simp
  have c2: "hbond_acceptor_donor metric angle mol1 mol2 cutoff t = Inl IndexError"
    if cc: "close_contacts metric (filter isacceptor (atom_dict mol1))
         (filter isdonor (atom_dict mol2)) cutoff coords coords 0 = (a, d)"
      and x: "x \<in> set a \<union> set d" "5 \<le> hybridization x"
  proof -
    from cc have len: "length a = length d" by (rule close_contacts_length)
    with x(1) have "a \<noteq> []" by auto
    with two [OF len x] show ?thesis
      by (simp add: hbond_acceptor_donor_cases [OF cc])
  qed
  have c3: "halogenbond_acceptor_halogen metric angle mol1 mol2 t cutoff = Inl IndexError"
    if cc: "close_contacts metric (filter isacceptor (atom_dict mol1))
         (filter ishalogen (atom_dict mol2)) cutoff coords coords 0 = (b, g)"
      and y: "y \<in> set b \<union> set g" "5 \<le> hybridization y"
  proof -
    from cc have len: "length b = length g" by (rule close_contacts_length)
    with y(1) have "b \<noteq> []" by auto
    with two [OF len y] show ?thesis
      by (simp add: halogenbond_acceptor_halogen_cases [OF cc])
  qed
  have c4: "acceptor_metal metric angle mol1 mol2 t cutoff = Inl IndexError"
    if cc: "close_contacts metric (filter isacceptor (atom_dict mol1))
         (filter ismetal (atom_dict mol2)) cutoff coords coords 0 = (c, m)"
      and z: "z \<in> set c" "5 \<le> hybridization z"
  proof -
    from z have "check_angles (map2 (\<lambda>mi ai. map (angle (coords mi) (coords ai)) (neighbors ai)) m c)
                  (map hybridization c) t = Inl IndexError"
      by (intro check_angles_Inl [of "hybridization z"]) auto
    moreover from z(1) have "c \<noteq> []" by auto
    ultimately show ?thesis
      by (simp add: acceptor_metal_cases [OF cc])
  qed
  from c1 c2 c3 c4 show ?thesis by blast
qed

theorem out_of_table_code_fails_witness:
  "check_angles [[Fin 179], [Fin 179]] [1, 7] 30 = Inl IndexError
   \<and> hbond_acceptor_donor axis_metric (\<lambda>_ _ _. Fin 179) mol_code_7 mol_partners 3.5 30
       = Inl IndexError
   \<and> halogenbond_acceptor_halogen axis_metric (\<lambda>_ _ _. Fin 179) mol_code_7 mol_partners 30 3.5
       = Inl IndexError
   \<and> acceptor_metal axis_metric (\<lambda>_ _ _. Fin 179) mol_code_7 mol_partners 30 3.5
       = Inl IndexError"
proof -
  have c1: "close_contacts axis_metric (filter isacceptor (atom_dict mol_code_7))
         (filter isdonor (atom_dict mol_partners)) 3.5 coords coords 0
         = ([acceptor_code_7], [donor_at_3])"
    by code_simp
  have c2: "close_contacts axis_metric (filter isacceptor (atom_dict mol_code_7))
         (filter ishalogen (atom_dict mol_partners)) 3.5 coords coords 0
         = ([acceptor_code_7], [halogen_at_3])"
    by code_simp
  have c3: "close_contacts axis_metric (filter isacceptor (atom_dict mol_code_7))
         (filter ismetal (atom_dict mol_partners)) 3.5 coords coords 0
         = ([acceptor_code_7], [metal_at_2])"
    by code_simp
  have h: "hybridization acceptor_code_7 = 7"
    by (simp add: acceptor_code_7_def plain_atom_def)
  show ?thesis
    using c1 c2 c3 h
      out_of_table_code_fails [where h = 7 and hybridizations = "[1, 7]"
        and angles = "[[Fin 179], [Fin 179]]" and t = 30 and metric = axis_metric
        and angle = "\<lambda>_ _ _. Fin 179" and ?mol1.0 = mol_code_7 and ?mol2.0 = mol_partners
        and cutoff = "3.5" and a = "[acceptor_code_7]" and d = "[donor_at_3]"
        and x = acceptor_code_7 and b = "[acceptor_code_7]" and g = "[halogen_at_3]"
        and y = acceptor_code_7 and c = "[acceptor_code_7]" and m = "[metal_at_2]"
        and z = acceptor_code_7]
    by simp
qed

end
